theory Spec2Isabelle
  imports
    Complex_Main
    "HOL-Library.AList"
    "HOL-Library.Option_ord"
    "HOL-Library.Char_ord"
    "HOL-Library.List_Lexorder"
    "HOL-Library.Product_Lexorder"
begin

section \<open>The multi-cause circuit breaker (lymph/core/circuitbreaker.py)\<close>

text \<open>
  The module calls \<^verbatim>\<open>time.monotonic\<close> of the standard library, which exists from
  Python 3.3 on, so the embedding follows Python 3:
  \<^item> comparing \<^verbatim>\<open>None\<close> with a float raises \<^verbatim>\<open>TypeError\<close>;
  \<^item> a dict keeps its keys in insertion order, and removing a key while a key view is
    being iterated makes the next step of the iteration raise \<^verbatim>\<open>RuntimeError\<close>;
  \<^item> \<^verbatim>\<open>d[k]\<close> on a missing key raises \<^verbatim>\<open>KeyError\<close>.

  Every exception is a value of \<open>error\<close>. A method returns its outcome together with
  the breaker it leaves behind, since a mutation made before an exception stays.
  Clock readings are arguments: one for every call of \<^verbatim>\<open>time.monotonic()\<close>.
  Monotonic time (a float) is a \<open>real\<close>; endpoints and methods are strings.
\<close>

datatype error =
    CircuitBreakerOpen string
  | NotConnected string
  | TypeError
  | KeyError
  | RuntimeError
  | IndexError

text \<open>A tally is the two-element list \<^verbatim>\<open>[count, last_time]\<close>; \<^verbatim>\<open>None\<close> is \<open>None\<close>.\<close>

type_synonym tally = "int \<times> real option"

text \<open>
  A dict is an association list in insertion order with distinct keys: \<open>map_of\<close> reads
  it, \<open>AList.update\<close> assigns (in place for a known key, at the end for a new one),
  \<open>AList.delete\<close> pops, \<open>map fst\<close> is \<^verbatim>\<open>keys()\<close>.
\<close>

type_synonym 'v pydict = "(string \<times> 'v) list"

type_synonym 'a outcome = "error + 'a"

record breaker =
  global_fail :: tally
  endpoint_fail :: "tally pydict"
  method_fail :: "tally pydict"
  method_instance_fail :: "tally pydict pydict"
  adjust_endpoint_rating :: "int pydict \<Rightarrow> int pydict"
  last_cleanup :: real

type_synonym 'a result = "'a outcome \<times> breaker"

definition MAXIMUM_ERRORS_BEFORE_OPEN :: int where
  "MAXIMUM_ERRORS_BEFORE_OPEN = 7"

definition COOLDOWN_SECONDS :: real where
  "COOLDOWN_SECONDS = 60"

definition OVERPROVISIONING_FACTOR :: nat where
  "OVERPROVISIONING_FACTOR = 2"

definition CLEANUP_INTERVAL :: real where
  "CLEANUP_INTERVAL = 3600"

text \<open>\<^verbatim>\<open>_adjust_endpoint_rating\<close>: the default adjuster returns the ratings as they are.\<close>

definition default_adjust_endpoint_rating :: "int pydict \<Rightarrow> int pydict" where
  "default_adjust_endpoint_rating ratings = ratings"

text \<open>\<^verbatim>\<open>__init__\<close>; \<open>now\<close> is the clock reading stored in \<^verbatim>\<open>last_cleanup\<close>.\<close>

definition init :: "(int pydict \<Rightarrow> int pydict) option \<Rightarrow> real \<Rightarrow> breaker" where
  "init adjuster now =
    \<lparr> global_fail = (0, None),
      endpoint_fail = [],
      method_fail = [],
      method_instance_fail = [],
      adjust_endpoint_rating =
        (case adjuster of None \<Rightarrow> default_adjust_endpoint_rating | Some f \<Rightarrow> f),
      last_cleanup = now \<rparr>"

text \<open>\<^verbatim>\<open>d[k]\<close> as an expression.\<close>

definition getitem :: "'v pydict \<Rightarrow> string \<Rightarrow> 'v outcome" where
  "getitem d k = (case map_of d k of None \<Rightarrow> Inl KeyError | Some v \<Rightarrow> Inr v)"

text \<open>Sequencing of two computations that may raise: the first exception wins.\<close>

definition ebind :: "'a outcome \<Rightarrow> ('a \<Rightarrow> 'b outcome) \<Rightarrow> 'b outcome" where
  "ebind x f = (case x of Inl e \<Rightarrow> Inl e | Inr v \<Rightarrow> f v)"

definition add_method :: "breaker \<Rightarrow> string \<Rightarrow> string \<Rightarrow> unit result" where
  "add_method b endpoint method =
    (let b1 = (if map_of (endpoint_fail b) endpoint = None
               then b\<lparr>endpoint_fail := AList.update endpoint (0, None) (endpoint_fail b)\<rparr>
               else b);
         b2 = (if map_of (method_fail b1) method = None
               then b1\<lparr>method_fail := AList.update method (0, None) (method_fail b1),
                       method_instance_fail :=
                         AList.update method [] (method_instance_fail b1)\<rparr>
               else b1)
     in (case map_of (method_instance_fail b2) method of
           None \<Rightarrow> (Inl KeyError, b2)
         | Some inner \<Rightarrow>
             (if map_of inner endpoint = None
              then (Inr (), b2\<lparr>method_instance_fail :=
                      AList.update method (AList.update endpoint (0, None) inner)
                        (method_instance_fail b2)\<rparr>)
              else (Inr (), b2))))"

definition observe_failure :: "breaker \<Rightarrow> real \<Rightarrow> string \<Rightarrow> string \<Rightarrow> unit result" where
  "observe_failure b now endpoint method =
    (let b1 = b\<lparr>global_fail := (fst (global_fail b) + 1, Some now)\<rparr> in
     (case map_of (endpoint_fail b1) endpoint of
        None \<Rightarrow> (Inl KeyError, b1)
      | Some et \<Rightarrow>
     (let b2 = b1\<lparr>endpoint_fail :=
                  AList.update endpoint (fst et + 1, Some now) (endpoint_fail b1)\<rparr> in
     (case map_of (method_fail b2) method of
        None \<Rightarrow> (Inl KeyError, b2)
      | Some mt \<Rightarrow>
     (let b3 = b2\<lparr>method_fail :=
                  AList.update method (fst mt + 1, Some now) (method_fail b2)\<rparr> in
     (case map_of (method_instance_fail b3) method of
        None \<Rightarrow> (Inl KeyError, b3)
      | Some inner \<Rightarrow>
     (case map_of inner endpoint of
        None \<Rightarrow> (Inl KeyError, b3)
      | Some it \<Rightarrow>
          (Inr (), b3\<lparr>method_instance_fail :=
             AList.update method (AList.update endpoint (fst it + 1, Some now) inner)
               (method_instance_fail b3)\<rparr>))))))))"

definition observe_success :: "breaker \<Rightarrow> string \<Rightarrow> string \<Rightarrow> unit result" where
  "observe_success b endpoint method =
    (let b1 = b\<lparr>global_fail := (0, None)\<rparr> in
     (case map_of (endpoint_fail b1) endpoint of
        None \<Rightarrow> (Inl KeyError, b1)
      | Some et \<Rightarrow>
     (let b2 = b1\<lparr>endpoint_fail :=
                  AList.update endpoint (0, None) (endpoint_fail b1)\<rparr> in
     (case map_of (method_fail b2) method of
        None \<Rightarrow> (Inl KeyError, b2)
      | Some mt \<Rightarrow>
     (let b3 = b2\<lparr>method_fail :=
                  AList.update method (0, None) (method_fail b2)\<rparr> in
     (case map_of (method_instance_fail b3) method of
        None \<Rightarrow> (Inl KeyError, b3)
      | Some inner \<Rightarrow>
     (case map_of inner endpoint of
        None \<Rightarrow> (Inl KeyError, b3)
      | Some it \<Rightarrow>
          (Inr (), b3\<lparr>method_instance_fail :=
             AList.update method (AList.update endpoint (0, None) inner)
               (method_instance_fail b3)\<rparr>))))))))"

subsection \<open>Cleanup\<close>

text \<open>\<^verbatim>\<open>(tally[1] or 0) < cleanup_before\<close>: an unset time counts as 0.\<close>

definition stale :: "tally \<Rightarrow> real \<Rightarrow> bool" where
  "stale t cleanup_before =
    ((case snd t of None \<Rightarrow> 0 | Some ts \<Rightarrow> ts) < cleanup_before)"

text \<open>
  The three loops of \<^verbatim>\<open>_cleanup\<close> iterate over \<^verbatim>\<open>keys()\<close> of the dict they pop from.
  Until the first pop the view yields the keys the dict had when the loop began; after
  a pop the loop body runs to its end and the next step of the iteration raises
  \<^verbatim>\<open>RuntimeError\<close>, also when no key is left to visit.
\<close>

fun cleanup_endpoints :: "string list \<Rightarrow> real \<Rightarrow> breaker \<Rightarrow> unit result" where
  "cleanup_endpoints [] cleanup_before b = (Inr (), b)"
| "cleanup_endpoints (endpoint # rest) cleanup_before b =
    (case map_of (endpoint_fail b) endpoint of
       None \<Rightarrow> (Inl KeyError, b)
     | Some t \<Rightarrow>
         (if stale t cleanup_before
          then (Inl RuntimeError,
                b\<lparr>endpoint_fail := AList.delete endpoint (endpoint_fail b)\<rparr>)
          else cleanup_endpoints rest cleanup_before b))"

text \<open>
  The body of the innermost loop when the tally is stale: pop the endpoint from the
  method's dict and, when that dict is now empty, pop the method.
\<close>

definition pop_instance :: "breaker \<Rightarrow> string \<Rightarrow> string \<Rightarrow> tally pydict \<Rightarrow> breaker" where
  "pop_instance b method endpoint inner =
    (let inner' = AList.delete endpoint inner;
         b1 = b\<lparr>method_instance_fail :=
                AList.update method inner' (method_instance_fail b)\<rparr>
     in (if inner' = []
         then b1\<lparr>method_instance_fail := AList.delete method (method_instance_fail b1)\<rparr>
         else b1))"

fun cleanup_instances :: "string \<Rightarrow> string list \<Rightarrow> real \<Rightarrow> breaker \<Rightarrow> unit result" where
  "cleanup_instances method [] cleanup_before b = (Inr (), b)"
| "cleanup_instances method (endpoint # rest) cleanup_before b =
    (case map_of (method_instance_fail b) method of
       None \<Rightarrow> (Inl KeyError, b)
     | Some inner \<Rightarrow>
         (case map_of inner endpoint of
            None \<Rightarrow> (Inl KeyError, b)
          | Some t \<Rightarrow>
              (if stale t cleanup_before
               then (Inl RuntimeError, pop_instance b method endpoint inner)
               else cleanup_instances method rest cleanup_before b)))"

fun cleanup_methods :: "string list \<Rightarrow> real \<Rightarrow> breaker \<Rightarrow> unit result" where
  "cleanup_methods [] cleanup_before b = (Inr (), b)"
| "cleanup_methods (method # rest) cleanup_before b =
    (case map_of (method_fail b) method of
       None \<Rightarrow> (Inl KeyError, b)
     | Some t \<Rightarrow>
         (let popped = stale t cleanup_before;
              b1 = (if popped
                    then b\<lparr>method_fail := AList.delete method (method_fail b)\<rparr>
                    else b)
          in (case map_of (method_instance_fail b1) method of
                None \<Rightarrow> (Inl KeyError, b1)
              | Some inner \<Rightarrow>
                  (case cleanup_instances method (map fst inner) cleanup_before b1 of
                     (Inl e, b2) \<Rightarrow> (Inl e, b2)
                   | (Inr u, b2) \<Rightarrow>
                       (if popped then (Inl RuntimeError, b2)
                        else cleanup_methods rest cleanup_before b2)))))"

text \<open>\<^verbatim>\<open>_cleanup\<close>; \<open>t1\<close> and \<open>t2\<close> are its two clock readings.\<close>

definition cleanup :: "breaker \<Rightarrow> real \<Rightarrow> real \<Rightarrow> unit result" where
  "cleanup b t1 t2 =
    (let cleanup_before = t1 - CLEANUP_INTERVAL in
     (case cleanup_endpoints (map fst (endpoint_fail b)) cleanup_before b of
        (Inl e, b1) \<Rightarrow> (Inl e, b1)
      | (Inr u, b1) \<Rightarrow>
          (case cleanup_methods (map fst (method_fail b1)) cleanup_before b1 of
             (Inl e, b2) \<Rightarrow> (Inl e, b2)
           | (Inr u, b2) \<Rightarrow> (Inr (), b2\<lparr>last_cleanup := t2\<rparr>))))"

subsection \<open>Selection\<close>

text \<open>The local function \<^verbatim>\<open>apply_ignore_before\<close>, with its free variable as an argument.\<close>

definition apply_ignore_before :: "real \<Rightarrow> tally \<Rightarrow> int outcome" where
  "apply_ignore_before ignore_before status =
    (case snd status of
       None \<Rightarrow> Inl TypeError
     | Some ts \<Rightarrow> Inr (if ts \<le> ignore_before then 0 else fst status))"

text \<open>
  The local function \<^verbatim>\<open>sort_key\<close>: both arguments of \<^verbatim>\<open>max\<close> are evaluated, left to
  right, before \<^verbatim>\<open>max\<close> is called.
\<close>

definition sort_key_endpoint :: "breaker \<Rightarrow> string \<Rightarrow> real \<Rightarrow> string \<Rightarrow> int outcome" where
  "sort_key_endpoint b method ignore_before endpoint_key =
    ebind (getitem (endpoint_fail b) endpoint_key) (\<lambda>et.
    ebind (apply_ignore_before ignore_before et) (\<lambda>x.
    ebind (getitem (method_instance_fail b) method) (\<lambda>inner.
    ebind (getitem inner endpoint_key) (\<lambda>it.
    ebind (apply_ignore_before ignore_before it) (\<lambda>y.
    Inr (max x y))))))"

text \<open>
  The dict comprehension \<^verbatim>\<open>{ endpoint: sort_key(endpoint) for endpoint in endpoints }\<close>,
  filling \<open>acc\<close> in iteration order.
\<close>

fun build_ratings ::
  "breaker \<Rightarrow> string \<Rightarrow> real \<Rightarrow> string list \<Rightarrow> int pydict \<Rightarrow> int pydict outcome" where
  "build_ratings b method ignore_before [] acc = Inr acc"
| "build_ratings b method ignore_before (endpoint # rest) acc =
    ebind (sort_key_endpoint b method ignore_before endpoint) (\<lambda>rating.
    build_ratings b method ignore_before rest (AList.update endpoint rating acc))"

text \<open>
  Lines 124 and 125: the candidates are the argument when it is given and not empty,
  the endpoints registered under the method otherwise.
\<close>

definition candidates :: "breaker \<Rightarrow> string \<Rightarrow> string list option \<Rightarrow> string list outcome" where
  "candidates b method endpoints =
    (let registered =
           ebind (getitem (method_instance_fail b) method) (\<lambda>inner. Inr (map fst inner))
     in (case endpoints of
           None \<Rightarrow> registered
         | Some es \<Rightarrow> (if es = [] then registered else Inr es)))"

text \<open>Lines 127 and 128: the ratings of the candidates, passed through the adjuster.\<close>

definition adjusted_ratings ::
  "breaker \<Rightarrow> real \<Rightarrow> string \<Rightarrow> string list option \<Rightarrow> int pydict outcome" where
  "adjusted_ratings b ignore_before method endpoints =
    ebind (candidates b method endpoints) (\<lambda>es.
    ebind (build_ratings b method ignore_before es []) (\<lambda>ratings.
    Inr (adjust_endpoint_rating b ratings)))"

text \<open>
  Lines 133 and 134: \<^verbatim>\<open>sorted(ratings.keys(), key=ratings.get)\<close> is a stable sort of
  the keys by their rating, then the slice \<^verbatim>\<open>[0:1 + int((len - 1) / 2)]\<close>, where the
  true division of a non-negative number followed by \<^verbatim>\<open>int\<close> is the floor.
\<close>

definition sorted_endpoints :: "int pydict \<Rightarrow> string list" where
  "sorted_endpoints ratings = sort_key (map_of ratings) (map fst ratings)"

definition shortlist :: "int pydict \<Rightarrow> string list" where
  "shortlist ratings =
    (let endpoints = sorted_endpoints ratings
     in take (1 + (length endpoints - 1) div OVERPROVISIONING_FACTOR) endpoints)"

text \<open>
  \<^verbatim>\<open>random.choice\<close>: the draw \<open>r\<close> is any natural number, reduced to an index of the
  sequence; every index is the outcome of some draw.
\<close>

definition random_choice :: "nat \<Rightarrow> 'a list \<Rightarrow> 'a outcome" where
  "random_choice r xs = (if xs = [] then Inl IndexError else Inr (xs ! (r mod length xs)))"

text \<open>The four messages of \<^verbatim>\<open>CircuitBreakerOpen\<close> and the two of \<^verbatim>\<open>NotConnected\<close>.\<close>

definition global_open :: error where
  "global_open = CircuitBreakerOpen ''global failure rate too high''"

definition method_open :: "string \<Rightarrow> error" where
  "method_open method =
    CircuitBreakerOpen (''method failure rate too high for method '' @ method)"

definition endpoint_open :: "string \<Rightarrow> error" where
  "endpoint_open endpoint =
    CircuitBreakerOpen (''endpoint failure rate too high for endpoint '' @ endpoint)"

definition method_instance_open :: "string \<Rightarrow> string \<Rightarrow> error" where
  "method_instance_open endpoint method =
    CircuitBreakerOpen
      (''method instance failure rate too high for (endpoint, method) = (''
       @ endpoint @ '', '' @ method @ '')'')"

definition not_configured :: "string \<Rightarrow> error" where
  "not_configured method = NotConnected (''no endpoints configured for method: '' @ method)"

definition not_available :: "string \<Rightarrow> error" where
  "not_available method = NotConnected (''no endpoints available for method: '' @ method)"

text \<open>Lines 137 to 142: the checks on the chosen endpoint.\<close>

definition check_endpoint :: "breaker \<Rightarrow> real \<Rightarrow> string \<Rightarrow> string \<Rightarrow> string outcome" where
  "check_endpoint b ignore_before method endpoint =
    ebind (getitem (endpoint_fail b) endpoint) (\<lambda>et.
    ebind (apply_ignore_before ignore_before et) (\<lambda>x.
    (if x > MAXIMUM_ERRORS_BEFORE_OPEN then Inl (endpoint_open endpoint)
     else
    ebind (getitem (method_instance_fail b) method) (\<lambda>inner.
    ebind (getitem inner endpoint) (\<lambda>it.
    ebind (apply_ignore_before ignore_before it) (\<lambda>y.
    (if y > MAXIMUM_ERRORS_BEFORE_OPEN then Inl (method_instance_open endpoint method)
     else Inr endpoint)))))))"

text \<open>Lines 104 to 142, which read the breaker and leave it as it is.\<close>

definition select_checked ::
  "breaker \<Rightarrow> real \<Rightarrow> string \<Rightarrow> string list option \<Rightarrow> nat \<Rightarrow> string outcome" where
  "select_checked b now method endpoints r =
    (let ignore_before = now - COOLDOWN_SECONDS in
    ebind (apply_ignore_before ignore_before (global_fail b)) (\<lambda>g.
    (if g > MAXIMUM_ERRORS_BEFORE_OPEN then Inl global_open
     else
    (if map_of (method_fail b) method = None then Inl (not_configured method)
     else
    ebind (getitem (method_fail b) method) (\<lambda>mt.
    ebind (apply_ignore_before ignore_before mt) (\<lambda>m.
    (if m > MAXIMUM_ERRORS_BEFORE_OPEN then Inl (method_open method)
     else
    ebind (adjusted_ratings b ignore_before method endpoints) (\<lambda>ratings.
    (if ratings = [] then Inl (not_available method)
     else
    ebind (random_choice r (shortlist ratings)) (\<lambda>endpoint.
    check_endpoint b ignore_before method endpoint))))))))))"

text \<open>
  \<^verbatim>\<open>select_endpoint\<close>: \<open>now\<close> is its own clock reading, \<open>t1\<close> and \<open>t2\<close> are the readings
  of \<^verbatim>\<open>_cleanup\<close> when it runs, \<open>r\<close> is the random draw.
\<close>

definition select_endpoint ::
  "breaker \<Rightarrow> real \<Rightarrow> real \<Rightarrow> real \<Rightarrow> string \<Rightarrow> string list option \<Rightarrow> nat \<Rightarrow> string result" where
  "select_endpoint b now t1 t2 method endpoints r =
    (case (if last_cleanup b < now - CLEANUP_INTERVAL
           then cleanup b t1 t2 else (Inr (), b)) of
       (Inl e, b') \<Rightarrow> (Inl e, b')
     | (Inr u, b') \<Rightarrow> (select_checked b' now method endpoints r, b'))"

text \<open>
  The effective counts that the checks on the chosen endpoint read, as observations of a
  breaker at the time \<open>now\<close> of a selection.
\<close>

definition effective_endpoint :: "breaker \<Rightarrow> real \<Rightarrow> string \<Rightarrow> int outcome" where
  "effective_endpoint b now e =
    ebind (getitem (endpoint_fail b) e) (apply_ignore_before (now - COOLDOWN_SECONDS))"

definition effective_method_instance ::
  "breaker \<Rightarrow> real \<Rightarrow> string \<Rightarrow> string \<Rightarrow> int outcome" where
  "effective_method_instance b now m e =
    ebind (getitem (method_instance_fail b) m) (\<lambda>inner.
    ebind (getitem inner e) (apply_ignore_before (now - COOLDOWN_SECONDS)))"

definition effective_global :: "breaker \<Rightarrow> real \<Rightarrow> int outcome" where
  "effective_global b now = apply_ignore_before (now - COOLDOWN_SECONDS) (global_fail b)"

definition effective_method :: "breaker \<Rightarrow> real \<Rightarrow> string \<Rightarrow> int outcome" where
  "effective_method b now m =
    ebind (getitem (method_fail b) m) (apply_ignore_before (now - COOLDOWN_SECONDS))"

text \<open>A pair is registered when \<^verbatim>\<open>add_method\<close> has created its three entries.\<close>

definition registered :: "breaker \<Rightarrow> string \<Rightarrow> string \<Rightarrow> bool" where
  "registered b e m =
    (map_of (endpoint_fail b) e \<noteq> None \<and> map_of (method_fail b) m \<noteq> None \<and>
     (case map_of (method_instance_fail b) m of
        None \<Rightarrow> False
      | Some inner \<Rightarrow> map_of inner e \<noteq> None))"

text \<open>
  The loops of the tests, \<^verbatim>\<open>for i in range(k): breaker.observe_failure(e, m)\<close>, with the
  clock reading of each call.
\<close>

fun observe_failures :: "breaker \<Rightarrow> real list \<Rightarrow> string \<Rightarrow> string \<Rightarrow> breaker" where
  "observe_failures b [] e m = b"
| "observe_failures b (t # ts) e m = observe_failures (snd (observe_failure b t e m)) ts e m"

text \<open>
  The order of the specification, step 9: ascending by rating, ties broken by the
  natural order of the endpoint identifier (strings compare lexicographically by
  character), and the shortlist of step 10 cut from it.
\<close>

definition spec_sorted_endpoints :: "int pydict \<Rightarrow> string list" where
  "spec_sorted_endpoints ratings = map fst (sort_key (\<lambda>p. (snd p, fst p)) ratings)"

definition spec_shortlist :: "int pydict \<Rightarrow> string list" where
  "spec_shortlist ratings =
    take (1 + (length ratings - 1) div OVERPROVISIONING_FACTOR) (spec_sorted_endpoints ratings)"

section \<open>The liveness monitor (lymph/core/connection.py)\<close>

text \<open>
  The status strings are the constructors of \<open>status\<close>. The transport is seen through
  the calls made to it: \<open>disconnect_calls\<close> lists the arguments of
  \<^verbatim>\<open>server.disconnect\<close>, oldest first. The sample window and the process id are read only
  by the heartbeat loop and by logging and are left out.
\<close>

datatype status = UNKNOWN | RESPONSIVE | UNRESPONSIVE | CLOSED | IDLE

record connection =
  endpoint :: string
  timeout :: real
  heartbeat_interval :: real
  idle_timeout :: real
  unresponsive_disconnect :: real
  idle_disconnect :: real
  last_seen :: real
  last_message :: real
  created_at :: real
  explicit_heartbeat_count :: int
  status :: status
  last_status_change :: real
  received_message_count :: int
  sent_message_count :: int
  disconnect_calls :: "string list"

text \<open>Of a message only \<^verbatim>\<open>is_idle_chatter()\<close> is consulted.\<close>

record message =
  is_idle_chatter :: bool

text \<open>\<^verbatim>\<open>__init__\<close> with its five thresholds; \<open>now\<close> is its clock reading.\<close>

definition connect :: "string \<Rightarrow> real \<Rightarrow> real \<Rightarrow> real \<Rightarrow> real \<Rightarrow> real \<Rightarrow> real \<Rightarrow> connection" where
  "connect ep hb tmo idle_tmo unresp_disc idle_disc now =
    \<lparr> endpoint = ep,
      timeout = tmo,
      heartbeat_interval = hb,
      idle_timeout = idle_tmo,
      unresponsive_disconnect = unresp_disc,
      idle_disconnect = idle_disc,
      last_seen = 0,
      last_message = now,
      created_at = now,
      explicit_heartbeat_count = 0,
      status = UNKNOWN,
      last_status_change = now,
      received_message_count = 0,
      sent_message_count = 0,
      disconnect_calls = [] \<rparr>"

text \<open>\<^verbatim>\<open>set_status\<close>; \<open>t\<close> is the clock reading it takes when the status differs.\<close>

definition set_status :: "connection \<Rightarrow> real \<Rightarrow> status \<Rightarrow> connection" where
  "set_status c t s =
    (let c1 = (if s \<noteq> status c then c\<lparr>last_status_change := t\<rparr> else c)
     in c1\<lparr>status := s\<rparr>)"

definition close :: "connection \<Rightarrow> connection" where
  "close c =
    (if status c = CLOSED then c
     else c\<lparr>status := CLOSED, disconnect_calls := disconnect_calls c @ [endpoint c]\<rparr>)"

text \<open>
  \<^verbatim>\<open>update_status\<close>: \<open>now\<close> is its clock reading, \<open>t\<close> the later one of \<^verbatim>\<open>set_status\<close>.
  \<^verbatim>\<open>if self.last_seen\<close> holds when the number is not zero.
\<close>

definition update_status :: "connection \<Rightarrow> real \<Rightarrow> real \<Rightarrow> connection" where
  "update_status c now t =
    (if last_seen c \<noteq> 0 then
       (if status c = UNRESPONSIVE \<and> now - last_status_change c \<ge> unresponsive_disconnect c
        then close c
        else if now - last_seen c \<ge> timeout c then set_status c t UNRESPONSIVE
        else if status c = IDLE \<and> now - last_status_change c \<ge> idle_disconnect c
        then close c
        else if now - last_message c \<ge> idle_timeout c then set_status c t IDLE
        else set_status c t RESPONSIVE)
     else c)"

definition on_recv :: "connection \<Rightarrow> real \<Rightarrow> message \<Rightarrow> connection" where
  "on_recv c now msg =
    (let c1 = c\<lparr>last_seen := now\<rparr>;
         c2 = (if \<not> is_idle_chatter msg then c1\<lparr>last_message := now\<rparr> else c1)
     in c2\<lparr>received_message_count := received_message_count c2 + 1\<rparr>)"

definition on_send :: "connection \<Rightarrow> real \<Rightarrow> message \<Rightarrow> connection" where
  "on_send c now msg =
    (let c1 = (if \<not> is_idle_chatter msg then c\<lparr>last_message := now\<rparr> else c)
     in c1\<lparr>sent_message_count := sent_message_count c1 + 1\<rparr>)"

text \<open>
  \<^verbatim>\<open>live_check_loop\<close>, run for as many iterations as clock readings are supplied: each
  iteration tests the status, calls \<^verbatim>\<open>update_status\<close> with its two readings, logs
  (which changes nothing here) and sleeps.
\<close>

fun live_check_loop :: "connection \<Rightarrow> (real \<times> real) list \<Rightarrow> connection" where
  "live_check_loop c [] = c"
| "live_check_loop c ((now, t) # ticks) =
    (if status c \<noteq> CLOSED then live_check_loop (update_status c now t) ticks else c)"

text \<open>\<^verbatim>\<open>is_alive\<close>.\<close>

definition is_alive :: "connection \<Rightarrow> bool" where
  "is_alive c = (status c = RESPONSIVE \<or> status c = IDLE)"

text \<open>
  The transition table of the specification: the rows in their order, each a condition
  and an action, and the action of the first row whose condition holds.
\<close>

datatype action = Close | SetStatus status

definition transition_table :: "connection \<Rightarrow> real \<Rightarrow> (bool \<times> action) list" where
  "transition_table c now =
    [(status c = UNRESPONSIVE \<and> now - last_status_change c \<ge> unresponsive_disconnect c, Close),
     (now - last_seen c \<ge> timeout c, SetStatus UNRESPONSIVE),
     (status c = IDLE \<and> now - last_status_change c \<ge> idle_disconnect c, Close),
     (now - last_message c \<ge> idle_timeout c, SetStatus IDLE),
     (True, SetStatus RESPONSIVE)]"

fun first_match :: "(bool \<times> 'a) list \<Rightarrow> 'a option" where
  "first_match [] = None"
| "first_match ((cond, a) # rows) = (if cond then Some a else first_match rows)"

text \<open>
  What the specification says an action does to a monitor that is not closed:
  \<open>Close\<close> sets the status to \<open>CLOSED\<close> and asks the transport to disconnect the
  endpoint; \<open>SetStatus s\<close> assigns \<open>s\<close> and stamps \<open>last_status_change\<close> with the
  reading \<open>t\<close> when \<open>s\<close> is not the current status.
\<close>

fun apply_action :: "connection \<Rightarrow> real \<Rightarrow> action \<Rightarrow> connection" where
  "apply_action c t Close =
    c\<lparr>status := CLOSED, disconnect_calls := disconnect_calls c @ [endpoint c]\<rparr>"
| "apply_action c t (SetStatus s) =
    c\<lparr>status := s,
      last_status_change := (if s \<noteq> status c then t else last_status_change c)\<rparr>"

section \<open>Fixtures of the test suite (lymph/tests/test_circuitbreaker.py)\<close>

text \<open>
  \<^verbatim>\<open>breaker = MultiCauseCircuitBreaker(); breaker.add_method(e, m)\<close>, the breaker being
  created at time 0.
\<close>

definition fresh_registered :: "string \<Rightarrow> string \<Rightarrow> breaker" where
  "fresh_registered e m = snd (add_method (init None 0) e m)"

text \<open>
  The breaker in which \<open>(e, m)\<close> is the one registered pair and the four tallies that
  cover it all hold \<open>t\<close>: what the fixture above is, and what it stays under
  \<^verbatim>\<open>observe_failure(e, m)\<close>.
\<close>

definition single_pair :: "string \<Rightarrow> string \<Rightarrow> tally \<Rightarrow> breaker" where
  "single_pair e m t =
    \<lparr> global_fail = t,
      endpoint_fail = [(e, t)],
      method_fail = [(m, t)],
      method_instance_fail = [(m, [(e, t)])],
      adjust_endpoint_rating = default_adjust_endpoint_rating,
      last_cleanup = 0 \<rparr>"

text \<open>
  \<^verbatim>\<open>test_breaking\<close>: ten failures of the registered pair, all read at time 0.
\<close>

definition ten_failures :: breaker where
  "ten_failures =
    observe_failures (fresh_registered ''A'' ''a'') [0, 0, 0, 0, 0, 0, 0, 0, 0, 0] ''A'' ''a''"

text \<open>One failure of the registered pair, at time 0.\<close>

definition one_failure :: breaker where
  "one_failure = observe_failures (fresh_registered ''A'' ''a'') [0] ''A'' ''a''"

text \<open>
  Two endpoints under one method, \<open>B\<close> registered before \<open>A\<close>, one failure each at
  time 0.
\<close>

definition tied_B_A :: breaker where
  "tied_B_A =
    observe_failures
      (observe_failures (snd (add_method (fresh_registered ''B'' ''m'') ''A'' ''m''))
         [0] ''B'' ''m'')
      [0] ''A'' ''m''"

text \<open>A monitor with the default thresholds, created at time 0.\<close>

definition default_connection :: connection where
  "default_connection = connect ''peer'' 1 1 10 30 60 0"

section \<open>Properties of the circuit breaker\<close>

lemma ebind_Inr: "ebind x f = Inr v \<longleftrightarrow> (\<exists>u. x = Inr u \<and> f u = Inr v)"
  by (cases x) (simp_all add: ebind_def)

lemma ebind_Inl:
  "ebind x f = Inl err \<longleftrightarrow> (x = Inl err \<or> (\<exists>u. x = Inr u \<and> f u = Inl err))"
  by (cases x) (simp_all add: ebind_def)

lemma keys_update_present:
  "map_of d k = Some v \<Longrightarrow> map fst (AList.update k w d) = map fst d"
  by (induction d) (auto split: if_splits)

lemmas fixture_defs =
  fresh_registered_def ten_failures_def one_failure_def tied_B_A_def
  init_def add_method_def observe_failure_def observe_success_def

lemmas select_defs =
  select_endpoint_def select_checked_def cleanup_def stale_def adjusted_ratings_def
  candidates_def sort_key_endpoint_def check_endpoint_def shortlist_def
  sorted_endpoints_def random_choice_def apply_ignore_before_def getitem_def ebind_def
  global_open_def method_open_def endpoint_open_def method_instance_open_def
  not_configured_def not_available_def
  default_adjust_endpoint_rating_def CLEANUP_INTERVAL_def COOLDOWN_SECONDS_def
  MAXIMUM_ERRORS_BEFORE_OPEN_def OVERPROVISIONING_FACTOR_def Let_def

subsection \<open>A returned endpoint is not tripped\<close>

lemma check_endpoint_Inr:
  assumes "check_endpoint b ib m c = Inr e"
  shows "e = c \<and>
    (\<exists>x. ebind (getitem (endpoint_fail b) e) (apply_ignore_before ib) = Inr x \<and>
          x \<le> MAXIMUM_ERRORS_BEFORE_OPEN) \<and>
    (\<exists>y. ebind (getitem (method_instance_fail b) m)
            (\<lambda>inner. ebind (getitem inner e) (apply_ignore_before ib)) = Inr y \<and>
          y \<le> MAXIMUM_ERRORS_BEFORE_OPEN)"
  using assms unfolding check_endpoint_def
  by (auto simp add: ebind_Inr split: if_splits)

lemma select_endpoint_Inr:
  assumes "select_endpoint b now t1 t2 m es r = (Inr e, b')"
  shows "select_checked b' now m es r = Inr e"
  using assms unfolding select_endpoint_def
  by (auto split: prod.splits sum.splits if_splits)

lemma select_checked_Inr:
  assumes "select_checked b now m es r = Inr e"
  shows "\<exists>ratings c. adjusted_ratings b (now - COOLDOWN_SECONDS) m es = Inr ratings \<and>
           ratings \<noteq> [] \<and> random_choice r (shortlist ratings) = Inr c \<and>
           check_endpoint b (now - COOLDOWN_SECONDS) m c = Inr e"
  using assms unfolding select_checked_def Let_def
  by (auto simp add: ebind_Inr split: if_splits)

text \<open>
  Claim C4. Whenever \<^verbatim>\<open>select_endpoint(m)\<close> returns an endpoint \<open>e\<close>, the breaker it
  leaves holds a tally for \<open>e\<close> in \<^verbatim>\<open>endpoint_fail\<close> and one in
  \<^verbatim>\<open>method_instance_fail[m]\<close>, both with a set time, and the effective count of each
  at the time of the call is at most \<^verbatim>\<open>MAXIMUM_ERRORS_BEFORE_OPEN\<close>, whatever the
  candidates, the adjuster and the random draw.
\<close>

theorem select_endpoint_never_tripped:
  assumes "select_endpoint b now t1 t2 m es r = (Inr e, b')"
  shows "(\<exists>x. effective_endpoint b' now e = Inr x \<and> x \<le> MAXIMUM_ERRORS_BEFORE_OPEN) \<and>
         (\<exists>y. effective_method_instance b' now m e = Inr y \<and>
               y \<le> MAXIMUM_ERRORS_BEFORE_OPEN)"
proof -
  from assms have "select_checked b' now m es r = Inr e"
    by (rule select_endpoint_Inr)
  then obtain c where "check_endpoint b' (now - COOLDOWN_SECONDS) m c = Inr e"
    using select_checked_Inr by blast
  then show ?thesis
    unfolding effective_endpoint_def effective_method_instance_def
    by (rule check_endpoint_Inr [THEN conjunct2])
qed

theorem select_endpoint_never_tripped_witness:
  "select_endpoint (observe_failures (fresh_registered ''A'' ''a'') [0] ''A'' ''a'')
       1 1 1 ''a'' None 0
     = (Inr ''A'', observe_failures (fresh_registered ''A'' ''a'') [0] ''A'' ''a'') \<and>
   effective_endpoint (observe_failures (fresh_registered ''A'' ''a'') [0] ''A'' ''a'')
       1 ''A'' = Inr 1 \<and>
   effective_method_instance (observe_failures (fresh_registered ''A'' ''a'') [0] ''A'' ''a'')
       1 ''a'' ''A'' = Inr 1"
proof -
  have h: "select_endpoint (observe_failures (fresh_registered ''A'' ''a'') [0] ''A'' ''a'')
       1 1 1 ''a'' None 0
     = (Inr ''A'', observe_failures (fresh_registered ''A'' ''a'') [0] ''A'' ''a'')"
    by (simp add: fixture_defs select_defs)
  show ?thesis
    using h select_endpoint_never_tripped [OF h]
    by (simp add: fixture_defs effective_endpoint_def effective_method_instance_def
        apply_ignore_before_def getitem_def ebind_def COOLDOWN_SECONDS_def)
qed

subsection \<open>What a success resets\<close>

text \<open>
  Claim C9. For a registered pair \<open>(e, m)\<close>, \<^verbatim>\<open>observe_success(e, m)\<close> raises nothing,
  sets \<^verbatim>\<open>global_fail\<close>, \<^verbatim>\<open>endpoint_fail[e]\<close>, \<^verbatim>\<open>method_fail[m]\<close> and
  \<^verbatim>\<open>method_instance_fail[m][e]\<close> to \<open>(0, None)\<close>, and changes nothing else: every
  other endpoint, every other method and every other pair keeps its tally, the keys
  of the three dicts and their order stay, and so does \<^verbatim>\<open>last_cleanup\<close>.
\<close>

theorem observe_success_frame:
  assumes "registered b e m"
  shows "\<exists>inner. map_of (method_instance_fail b) m = Some inner \<and>
         fst (observe_success b e m) = Inr () \<and>
         global_fail (snd (observe_success b e m)) = (0, None) \<and>
         map_of (endpoint_fail (snd (observe_success b e m))) =
           (map_of (endpoint_fail b))(e \<mapsto> (0, None)) \<and>
         map_of (method_fail (snd (observe_success b e m))) =
           (map_of (method_fail b))(m \<mapsto> (0, None)) \<and>
         map_of (method_instance_fail (snd (observe_success b e m))) =
           (map_of (method_instance_fail b))(m \<mapsto> AList.update e (0, None) inner) \<and>
         map_of (AList.update e (0, None) inner) = (map_of inner)(e \<mapsto> (0, None)) \<and>
         map fst (endpoint_fail (snd (observe_success b e m))) = map fst (endpoint_fail b) \<and>
         map fst (method_fail (snd (observe_success b e m))) = map fst (method_fail b) \<and>
         map fst (method_instance_fail (snd (observe_success b e m))) =
           map fst (method_instance_fail b) \<and>
         last_cleanup (snd (observe_success b e m)) = last_cleanup b"
  using assms
  by (auto simp add: registered_def observe_success_def Let_def update_conv'
      keys_update_present split: option.splits)

theorem observe_success_frame_witness:
  "registered (observe_failures (fresh_registered ''A'' ''a'') [0] ''A'' ''a'') ''A'' ''a'' \<and>
   fst (observe_success (observe_failures (fresh_registered ''A'' ''a'') [0] ''A'' ''a'')
          ''A'' ''a'') = Inr () \<and>
   global_fail (snd (observe_success
          (observe_failures (fresh_registered ''A'' ''a'') [0] ''A'' ''a'') ''A'' ''a''))
     = (0, None)"
proof -
  have h: "registered (observe_failures (fresh_registered ''A'' ''a'') [0] ''A'' ''a'')
             ''A'' ''a''"
    by (simp add: fixture_defs registered_def Let_def)
  show ?thesis
    using h observe_success_frame [OF h] by blast
qed

subsection \<open>The shortlist\<close>

lemma random_choice_mem: "random_choice r xs = Inr c \<Longrightarrow> c \<in> set xs"
  by (auto simp add: random_choice_def split: if_splits)

lemma sorted_endpoints_sorted: "sorted (map (map_of ratings) (sorted_endpoints ratings))"
  by (simp add: sorted_endpoints_def)

lemma sorted_endpoints_stable:
  "filter (\<lambda>x. map_of ratings x = k) (sorted_endpoints ratings) =
   filter (\<lambda>x. map_of ratings x = k) (map fst ratings)"
  unfolding sorted_endpoints_def by (rule sort_key_stable)

lemma sorted_endpoints_single:
  "length ratings = 1 \<Longrightarrow> sorted_endpoints ratings = [fst (hd ratings)]"
  by (cases ratings) (simp_all add: sorted_endpoints_def)

text \<open>
  Claim C5, as stated, fails on ties. With \<open>B\<close> registered before \<open>A\<close> and both rated
  0, the rating map is \<open>{B: 0, A: 0}\<close>; the stable sort keeps \<open>B\<close> first, the shortlist
  has one element and \<^verbatim>\<open>select_endpoint\<close> returns \<open>B\<close>, while the first endpoint of the
  order that breaks ties by identifier is \<open>A\<close>.
\<close>

theorem shortlist_tie_counterexample:
  "adjusted_ratings tied_B_A (100 - COOLDOWN_SECONDS) ''m'' None =
     Inr [(''B'', 0), (''A'', 0)] \<and>
   fst (select_endpoint tied_B_A 100 100 100 ''m'' None 0) = Inr ''B'' \<and>
   spec_shortlist [(''B'', 0), (''A'', 0)] = [''A'']"
  by (simp add: fixture_defs select_defs spec_shortlist_def spec_sorted_endpoints_def
      less_eq_prod_def less_eq_char_def less_char_def)

text \<open>
  Claim C5, amended. When \<^verbatim>\<open>select_endpoint\<close> returns \<open>e\<close>, the adjusted rating map is
  not empty and \<open>e\<close> is among the first \<open>1 + (N - 1) div 2\<close> endpoints of the keys
  sorted ascending by rating, where endpoints of equal rating keep the order they have
  in the rating map (the sort is stable); with \<open>N = 1\<close> the one endpoint is chosen.
  This holds for every random draw \<open>r\<close>.
\<close>

theorem select_endpoint_in_shortlist:
  assumes "select_endpoint b now t1 t2 m es r = (Inr e, b')"
  shows "\<exists>ratings.
           adjusted_ratings b' (now - COOLDOWN_SECONDS) m es = Inr ratings \<and>
           ratings \<noteq> [] \<and>
           e \<in> set (take (1 + (length ratings - 1) div OVERPROVISIONING_FACTOR)
                      (sorted_endpoints ratings)) \<and>
           sorted (map (map_of ratings) (sorted_endpoints ratings)) \<and>
           (\<forall>k. filter (\<lambda>x. map_of ratings x = k) (sorted_endpoints ratings) =
                filter (\<lambda>x. map_of ratings x = k) (map fst ratings)) \<and>
           (length ratings = 1 \<longrightarrow> e = fst (hd ratings))"
proof -
  from assms have "select_checked b' now m es r = Inr e"
    by (rule select_endpoint_Inr)
  then obtain ratings c where
    ra: "adjusted_ratings b' (now - COOLDOWN_SECONDS) m es = Inr ratings" and
    ne: "ratings \<noteq> []" and
    ch: "random_choice r (shortlist ratings) = Inr c" and
    ce: "check_endpoint b' (now - COOLDOWN_SECONDS) m c = Inr e"
    using select_checked_Inr by blast
  from ce have "e = c"
    by (rule check_endpoint_Inr [THEN conjunct1])
  with ch have mem: "e \<in> set (shortlist ratings)"
    by (simp add: random_choice_mem)
  then have in_take:
    "e \<in> set (take (1 + (length ratings - 1) div OVERPROVISIONING_FACTOR)
                (sorted_endpoints ratings))"
    by (simp add: shortlist_def Let_def sorted_endpoints_def)
  have single: "length ratings = 1 \<longrightarrow> e = fst (hd ratings)"
  proof
    assume "length ratings = 1"
    then have "sorted_endpoints ratings = [fst (hd ratings)]"
      by (rule sorted_endpoints_single)
    with in_take show "e = fst (hd ratings)"
      by (auto dest: in_set_takeD)
  qed
  from ra ne in_take single show ?thesis
    using sorted_endpoints_sorted sorted_endpoints_stable by blast
qed

theorem select_endpoint_in_shortlist_witness:
  "select_endpoint tied_B_A 100 100 100 ''m'' None 0 = (Inr ''B'', tied_B_A) \<and>
   select_endpoint one_failure 1 1 1 ''a'' None 0 = (Inr ''A'', one_failure) \<and>
   (\<exists>ratings.
      adjusted_ratings one_failure (1 - COOLDOWN_SECONDS) ''a'' None = Inr ratings \<and>
      length ratings = 1 \<and> ''A'' = fst (hd ratings))"
proof -
  have h: "select_endpoint tied_B_A 100 100 100 ''m'' None 0 = (Inr ''B'', tied_B_A)"
    by (simp add: fixture_defs select_defs)
  have k: "select_endpoint one_failure 1 1 1 ''a'' None 0 = (Inr ''A'', one_failure)"
    by (simp add: fixture_defs select_defs)
  have l: "adjusted_ratings one_failure (1 - COOLDOWN_SECONDS) ''a'' None = Inr [(''A'', 1)]"
    by (simp add: fixture_defs select_defs)
  show ?thesis
    using h k l select_endpoint_in_shortlist [OF h] select_endpoint_in_shortlist [OF k]
    by simp
qed

subsection \<open>The messages of the exceptions\<close>

lemma cleanup_endpoints_err:
  "cleanup_endpoints ks cb b = (Inl err, b') \<Longrightarrow> err = KeyError \<or> err = RuntimeError"
  by (induction ks) (auto split: option.splits if_splits)

lemma cleanup_instances_err:
  "cleanup_instances m ks cb b = (Inl err, b') \<Longrightarrow> err = KeyError \<or> err = RuntimeError"
  by (induction ks) (auto split: option.splits if_splits)

lemma cleanup_methods_err:
  "cleanup_methods ks cb b = (Inl err, b') \<Longrightarrow> err = KeyError \<or> err = RuntimeError"
proof (induction ks arbitrary: b)
  case Nil
  then show ?case by simp
next
  case (Cons k ks)
  then show ?case
    by (auto simp add: Let_def split: option.splits if_splits prod.splits sum.splits
        dest: cleanup_instances_err)
qed

lemma cleanup_err:
  "cleanup b t1 t2 = (Inl err, b') \<Longrightarrow> err = KeyError \<or> err = RuntimeError"
  unfolding cleanup_def Let_def
  by (auto split: prod.splits sum.splits dest: cleanup_endpoints_err cleanup_methods_err)

lemma getitem_err: "getitem d k = Inl err \<Longrightarrow> err = KeyError"
  by (auto simp add: getitem_def split: option.splits)

lemma apply_ignore_before_err: "apply_ignore_before ib t = Inl err \<Longrightarrow> err = TypeError"
  by (auto simp add: apply_ignore_before_def split: option.splits)

lemma sort_key_endpoint_err:
  "sort_key_endpoint b m ib e = Inl err \<Longrightarrow> err = KeyError \<or> err = TypeError"
  unfolding sort_key_endpoint_def
  by (auto simp add: ebind_Inl dest: getitem_err apply_ignore_before_err)

lemma build_ratings_err:
  "build_ratings b m ib es acc = Inl err \<Longrightarrow> err = KeyError \<or> err = TypeError"
  by (induction es arbitrary: acc) (auto simp add: ebind_Inl dest: sort_key_endpoint_err)

lemma adjusted_ratings_err:
  "adjusted_ratings b ib m es = Inl err \<Longrightarrow> err = KeyError \<or> err = TypeError"
  unfolding adjusted_ratings_def candidates_def Let_def
  by (auto simp add: ebind_Inl split: option.splits if_splits
      dest: getitem_err build_ratings_err)

lemma random_choice_err: "random_choice r xs = Inl err \<Longrightarrow> err = IndexError"
  by (auto simp add: random_choice_def split: if_splits)

lemma check_endpoint_open:
  assumes "check_endpoint b (now - COOLDOWN_SECONDS) m c = Inl (CircuitBreakerOpen s)"
  shows "(s = ''endpoint failure rate too high for endpoint '' @ c \<and>
          (\<exists>x. effective_endpoint b now c = Inr x \<and> x > MAXIMUM_ERRORS_BEFORE_OPEN)) \<or>
         (s = ''method instance failure rate too high for (endpoint, method) = (''
               @ c @ '', '' @ m @ '')'' \<and>
          (\<exists>y. effective_method_instance b now m c = Inr y \<and>
                y > MAXIMUM_ERRORS_BEFORE_OPEN))"
  using assms
  unfolding check_endpoint_def effective_endpoint_def effective_method_instance_def
  by (auto simp add: ebind_Inl ebind_Inr endpoint_open_def method_instance_open_def
      split: if_splits dest: getitem_err apply_ignore_before_err)

lemma check_endpoint_not_connected:
  "check_endpoint b ib m c \<noteq> Inl (NotConnected s)"
  unfolding check_endpoint_def
  by (auto simp add: ebind_Inl endpoint_open_def method_instance_open_def
      split: if_splits dest: getitem_err apply_ignore_before_err)

lemma select_checked_open:
  assumes "select_checked b now m es r = Inl (CircuitBreakerOpen s)"
  shows "(s = ''global failure rate too high'' \<and>
          (\<exists>g. effective_global b now = Inr g \<and> g > MAXIMUM_ERRORS_BEFORE_OPEN)) \<or>
         (s = ''method failure rate too high for method '' @ m \<and>
          (\<exists>x. effective_method b now m = Inr x \<and> x > MAXIMUM_ERRORS_BEFORE_OPEN)) \<or>
         (\<exists>e. s = ''endpoint failure rate too high for endpoint '' @ e \<and>
          (\<exists>x. effective_endpoint b now e = Inr x \<and> x > MAXIMUM_ERRORS_BEFORE_OPEN)) \<or>
         (\<exists>e. s = ''method instance failure rate too high for (endpoint, method) = (''
                  @ e @ '', '' @ m @ '')'' \<and>
          (\<exists>y. effective_method_instance b now m e = Inr y \<and>
                y > MAXIMUM_ERRORS_BEFORE_OPEN))"
proof -
  let ?ib = "now - COOLDOWN_SECONDS"
  from assms consider
      (tier_global) g where "apply_ignore_before ?ib (global_fail b) = Inr g"
        "g > MAXIMUM_ERRORS_BEFORE_OPEN" "s = ''global failure rate too high''"
    | (tier_method) mt x where "getitem (method_fail b) m = Inr mt"
        "apply_ignore_before ?ib mt = Inr x" "x > MAXIMUM_ERRORS_BEFORE_OPEN"
        "s = ''method failure rate too high for method '' @ m"
    | (tier_chosen) c where "check_endpoint b ?ib m c = Inl (CircuitBreakerOpen s)"
    unfolding select_checked_def Let_def
    by (auto simp add: ebind_Inl global_open_def method_open_def not_configured_def
        not_available_def split: if_splits
        dest: getitem_err apply_ignore_before_err adjusted_ratings_err random_choice_err)
  then show ?thesis
  proof cases
    case tier_global
    then show ?thesis by (simp add: effective_global_def)
  next
    case tier_method
    then show ?thesis by (simp add: effective_method_def ebind_def)
  next
    case tier_chosen
    from check_endpoint_open [OF tier_chosen] show ?thesis by blast
  qed
qed

lemma select_checked_not_connected:
  assumes "select_checked b now m es r = Inl (NotConnected s)"
  shows "s = ''no endpoints configured for method: '' @ m \<or>
         s = ''no endpoints available for method: '' @ m"
  using assms unfolding select_checked_def Let_def
  by (auto simp add: ebind_Inl global_open_def method_open_def not_configured_def
      not_available_def check_endpoint_not_connected split: if_splits
      dest: getitem_err apply_ignore_before_err adjusted_ratings_err random_choice_err)

lemma select_endpoint_Inl:
  assumes "select_endpoint b now t1 t2 m es r = (Inl err, b')"
  shows "err = KeyError \<or> err = RuntimeError \<or> select_checked b' now m es r = Inl err"
  using assms unfolding select_endpoint_def
  by (auto split: prod.splits sum.splits if_splits dest: cleanup_err)

text \<open>
  Claim C8, as stated, fails: after the ten failures of \<^verbatim>\<open>test_breaking\<close> the global
  tier trips and the reason string is \<open>global failure rate too high\<close>, which is none
  of \<open>global\<close>, \<open>method:a\<close>, \<open>endpoint:A\<close> and \<open>method-instance:(A,a)\<close>.
\<close>

theorem reason_string_counterexample:
  "fst (select_endpoint ten_failures 1 1 1 ''a'' None 0) =
     Inl (CircuitBreakerOpen ''global failure rate too high'') \<and>
   ''global failure rate too high'' \<notin>
     {''global'', ''method:a'', ''endpoint:A'', ''method-instance:(A,a)''}"
  by (simp add: fixture_defs select_defs)

text \<open>
  Claim C8, amended. Every \<^verbatim>\<open>CircuitBreakerOpen\<close> raised by \<^verbatim>\<open>select_endpoint\<close> carries
  one of the four messages of the source, and the message names the tier whose
  effective count exceeds \<^verbatim>\<open>MAXIMUM_ERRORS_BEFORE_OPEN\<close>: the global tally, the tally
  of the method, the tally of an endpoint \<open>e\<close>, or the tally of the pair of the method
  and an endpoint \<open>e\<close>. Every \<^verbatim>\<open>NotConnected\<close> it raises carries one of two messages,
  both ending in the method.
\<close>

theorem select_endpoint_messages:
  assumes "select_endpoint b now t1 t2 m es r = (Inl err, b')"
  shows "(\<forall>s. err = CircuitBreakerOpen s \<longrightarrow>
           (s = ''global failure rate too high'' \<and>
            (\<exists>g. effective_global b' now = Inr g \<and> g > MAXIMUM_ERRORS_BEFORE_OPEN)) \<or>
           (s = ''method failure rate too high for method '' @ m \<and>
            (\<exists>x. effective_method b' now m = Inr x \<and> x > MAXIMUM_ERRORS_BEFORE_OPEN)) \<or>
           (\<exists>e. s = ''endpoint failure rate too high for endpoint '' @ e \<and>
            (\<exists>x. effective_endpoint b' now e = Inr x \<and> x > MAXIMUM_ERRORS_BEFORE_OPEN)) \<or>
           (\<exists>e. s = ''method instance failure rate too high for (endpoint, method) = (''
                    @ e @ '', '' @ m @ '')'' \<and>
            (\<exists>y. effective_method_instance b' now m e = Inr y \<and>
                  y > MAXIMUM_ERRORS_BEFORE_OPEN))) \<and>
         (\<forall>s. err = NotConnected s \<longrightarrow>
           s = ''no endpoints configured for method: '' @ m \<or>
           s = ''no endpoints available for method: '' @ m)"
proof (intro conjI allI impI)
  fix s assume "err = CircuitBreakerOpen s"
  with select_endpoint_Inl [OF assms]
  have "select_checked b' now m es r = Inl (CircuitBreakerOpen s)" by auto
  then show "(s = ''global failure rate too high'' \<and>
            (\<exists>g. effective_global b' now = Inr g \<and> g > MAXIMUM_ERRORS_BEFORE_OPEN)) \<or>
           (s = ''method failure rate too high for method '' @ m \<and>
            (\<exists>x. effective_method b' now m = Inr x \<and> x > MAXIMUM_ERRORS_BEFORE_OPEN)) \<or>
           (\<exists>e. s = ''endpoint failure rate too high for endpoint '' @ e \<and>
            (\<exists>x. effective_endpoint b' now e = Inr x \<and> x > MAXIMUM_ERRORS_BEFORE_OPEN)) \<or>
           (\<exists>e. s = ''method instance failure rate too high for (endpoint, method) = (''
                    @ e @ '', '' @ m @ '')'' \<and>
            (\<exists>y. effective_method_instance b' now m e = Inr y \<and>
                  y > MAXIMUM_ERRORS_BEFORE_OPEN))"
    by (rule select_checked_open)
next
  fix s assume "err = NotConnected s"
  with select_endpoint_Inl [OF assms]
  have "select_checked b' now m es r = Inl (NotConnected s)" by auto
  then show "s = ''no endpoints configured for method: '' @ m \<or>
             s = ''no endpoints available for method: '' @ m"
    by (rule select_checked_not_connected)
qed

theorem select_endpoint_messages_witness:
  "select_endpoint ten_failures 1 1 1 ''a'' None 0 =
     (Inl (CircuitBreakerOpen ''global failure rate too high''), ten_failures) \<and>
   effective_global ten_failures 1 = Inr 10 \<and>
   select_endpoint one_failure 1 1 1 ''b'' None 0 =
     (Inl (NotConnected ''no endpoints configured for method: b''), one_failure)"
proof -
  have h: "select_endpoint ten_failures 1 1 1 ''a'' None 0 =
     (Inl (CircuitBreakerOpen ''global failure rate too high''), ten_failures)"
    by (simp add: fixture_defs select_defs)
  have g: "effective_global ten_failures 1 = Inr 10"
    by (simp add: fixture_defs effective_global_def apply_ignore_before_def
        COOLDOWN_SECONDS_def)
  have k: "select_endpoint one_failure 1 1 1 ''b'' None 0 =
     (Inl (NotConnected ''no endpoints configured for method: b''), one_failure)"
    by (simp add: fixture_defs select_defs)
  show ?thesis
    using h g k select_endpoint_messages [OF h] select_endpoint_messages [OF k]
    by simp
qed

subsection \<open>Where the tests of the repository fail\<close>

text \<open>
  With at least one failure, the last of them within the cooldown and not older than
  the cleanup interval, the breaker with one registered pair behaves as its tests
  expect: up to seven failures \<^verbatim>\<open>select_endpoint\<close> returns the endpoint, from eight
  on it raises \<^verbatim>\<open>CircuitBreakerOpen\<close> for the global tier.
\<close>

lemma fresh_registered_single: "fresh_registered e m = single_pair e m (0, None)"
  by (simp add: fresh_registered_def init_def add_method_def single_pair_def)

lemma observe_failure_single:
  "snd (observe_failure (single_pair e m (c, x)) t e m) = single_pair e m (c + 1, Some t)"
  by (simp add: observe_failure_def single_pair_def)

lemma observe_failures_single:
  "observe_failures (single_pair e m (c, x)) ts e m =
     single_pair e m (c + int (length ts), if ts = [] then x else Some (last ts))"
proof (induction ts arbitrary: c x)
  case Nil
  then show ?case by simp
next
  case (Cons t ts)
  show ?case
    by (simp add: observe_failure_single Cons.IH add.assoc)
qed

lemma cleanup_single_fresh:
  assumes "t1 - CLEANUP_INTERVAL \<le> u"
  shows "cleanup (single_pair e m (c, Some u)) t1 t2 =
           (Inr (), (single_pair e m (c, Some u))\<lparr>last_cleanup := t2\<rparr>)"
  using assms by (simp add: cleanup_def single_pair_def stale_def)

lemma select_checked_single:
  assumes "now - COOLDOWN_SECONDS < u"
  shows "select_checked ((single_pair e m (c, Some u))\<lparr>last_cleanup := l\<rparr>) now m None r =
           (if c \<le> MAXIMUM_ERRORS_BEFORE_OPEN then Inr e
            else Inl (CircuitBreakerOpen ''global failure rate too high''))"
  using assms
  by (simp add: single_pair_def select_checked_def adjusted_ratings_def candidates_def
      sort_key_endpoint_def check_endpoint_def shortlist_def sorted_endpoints_def
      random_choice_def apply_ignore_before_def getitem_def ebind_def global_open_def
      default_adjust_endpoint_rating_def OVERPROVISIONING_FACTOR_def Let_def)

lemma select_endpoint_after_failures:
  assumes "ts \<noteq> []" and "now - COOLDOWN_SECONDS < last ts"
    and "t1 - CLEANUP_INTERVAL \<le> last ts"
  shows "fst (select_endpoint (observe_failures (fresh_registered e m) ts e m)
               now t1 t2 m None r) =
           (if int (length ts) \<le> MAXIMUM_ERRORS_BEFORE_OPEN then Inr e
            else Inl (CircuitBreakerOpen ''global failure rate too high''))"
proof -
  let ?b = "single_pair e m (int (length ts), Some (last ts))"
  have b: "observe_failures (fresh_registered e m) ts e m = ?b"
    using assms(1) by (simp add: fresh_registered_single observe_failures_single)
  have same: "?b\<lparr>last_cleanup := 0\<rparr> = ?b"
    by (simp add: single_pair_def)
  show ?thesis
  proof (cases "last_cleanup ?b < now - CLEANUP_INTERVAL")
    case True
    with assms(3) have "select_endpoint ?b now t1 t2 m None r =
        (select_checked (?b\<lparr>last_cleanup := t2\<rparr>) now m None r, ?b\<lparr>last_cleanup := t2\<rparr>)"
      by (simp add: select_endpoint_def cleanup_single_fresh)
    with assms(2) b show ?thesis
      by (simp add: select_checked_single)
  next
    case False
    then have "select_endpoint ?b now t1 t2 m None r =
        (select_checked (?b\<lparr>last_cleanup := 0\<rparr>) now m None r, ?b)"
      by (simp add: select_endpoint_def same)
    with assms(2) b show ?thesis
      by (simp add: select_checked_single)
  qed
qed

text \<open>
  A tally whose time is unset cannot be compared. The cleanup never touches
  \<^verbatim>\<open>global_fail\<close>, and \<^verbatim>\<open>observe_success\<close> unsets its time first of all, so that after
  a success on any pair every \<^verbatim>\<open>select_endpoint\<close>, for any method, raises.
\<close>

lemma cleanup_endpoints_global:
  "global_fail (snd (cleanup_endpoints ks cb b)) = global_fail b"
  by (induction ks) (auto split: option.splits)

lemma cleanup_instances_global:
  "global_fail (snd (cleanup_instances m ks cb b)) = global_fail b"
  by (induction ks) (auto simp add: pop_instance_def Let_def split: option.splits)

lemma cleanup_methods_global:
  "global_fail (snd (cleanup_methods ks cb b)) = global_fail b"
proof (induction ks arbitrary: b)
  case Nil
  then show ?case by simp
next
  case (Cons k ks)
  show ?case
  proof (cases "map_of (method_fail b) k")
    case None
    then show ?thesis by simp
  next
    case (Some t)
    define b1 where "b1 = (if stale t cb
        then b\<lparr>method_fail := AList.delete k (method_fail b)\<rparr> else b)"
    have g1: "global_fail b1 = global_fail b"
      by (simp add: b1_def)
    show ?thesis
    proof (cases "map_of (method_instance_fail b1) k")
      case None
      with Some g1 show ?thesis by (simp add: Let_def b1_def)
    next
      case inner: (Some inner)
      obtain res b2 where c: "cleanup_instances k (map fst inner) cb b1 = (res, b2)"
        by (cases "cleanup_instances k (map fst inner) cb b1")
      have g2: "global_fail b2 = global_fail b"
        using cleanup_instances_global [of k "map fst inner" cb b1] c g1 by simp
      from Some inner c g2 Cons.IH [of b2] show ?thesis
        by (cases res) (simp_all add: Let_def b1_def [symmetric])
    qed
  qed
qed

lemma cleanup_global: "global_fail (snd (cleanup b t1 t2)) = global_fail b"
proof -
  obtain r1 b1 where
    c1: "cleanup_endpoints (map fst (endpoint_fail b)) (t1 - CLEANUP_INTERVAL) b = (r1, b1)"
    by (cases "cleanup_endpoints (map fst (endpoint_fail b)) (t1 - CLEANUP_INTERVAL) b")
  obtain r2 b2 where
    c2: "cleanup_methods (map fst (method_fail b1)) (t1 - CLEANUP_INTERVAL) b1 = (r2, b2)"
    by (cases "cleanup_methods (map fst (method_fail b1)) (t1 - CLEANUP_INTERVAL) b1")
  have g1: "global_fail b1 = global_fail b"
    using cleanup_endpoints_global [of "map fst (endpoint_fail b)" "t1 - CLEANUP_INTERVAL" b]
      c1 by simp
  have g2: "global_fail b2 = global_fail b1"
    using cleanup_methods_global [of "map fst (method_fail b1)" "t1 - CLEANUP_INTERVAL" b1]
      c2 by simp
  from c1 c2 g1 g2 show ?thesis
    by (cases r1; cases r2) (simp_all add: cleanup_def Let_def)
qed

lemma observe_success_global: "global_fail (snd (observe_success b e m)) = (0, None)"
  by (simp add: observe_success_def Let_def split: option.splits)

lemma select_checked_unset_global:
  "global_fail b = (c, None) \<Longrightarrow> select_checked b now m es r = Inl TypeError"
  by (simp add: select_checked_def Let_def apply_ignore_before_def ebind_def)

lemma select_endpoint_unset_global:
  assumes "global_fail b = (c, None)"
  shows "\<exists>err. fst (select_endpoint b now t1 t2 m es r) = Inl err"
proof (cases "last_cleanup b < now - CLEANUP_INTERVAL")
  case False
  with assms show ?thesis
    by (simp add: select_endpoint_def select_checked_unset_global)
next
  case True
  obtain res b' where c: "cleanup b t1 t2 = (res, b')"
    by (cases "cleanup b t1 t2")
  have "global_fail b' = (c, None)"
    using cleanup_global [of b t1 t2] c assms by simp
  then have "select_checked b' now m es r = Inl TypeError"
    by (rule select_checked_unset_global)
  with True c show ?thesis
    by (cases res) (simp_all add: select_endpoint_def)
qed

lemma select_endpoint_after_any_success:
  "\<exists>err. fst (select_endpoint (snd (observe_success b e m)) now t1 t2 m' es r) = Inl err"
  using observe_success_global by (rule select_endpoint_unset_global)

text \<open>
  Claim C1, at \<open>k = 0\<close>. A breaker with the one registered pair \<open>(A, a)\<close> and no
  failure observed has \<^verbatim>\<open>global_fail = [0, None]\<close>; \<^verbatim>\<open>select_endpoint(a)\<close> compares
  that \<^verbatim>\<open>None\<close> with \<^verbatim>\<open>ignore_before\<close> and raises \<^verbatim>\<open>TypeError\<close> instead of
  returning \<open>A\<close>.
\<close>

theorem select_endpoint_no_failure_raises:
  "select_endpoint (fresh_registered ''A'' ''a'') 1 1 1 ''a'' None 0 =
     (Inl TypeError, fresh_registered ''A'' ''a'')"
  by (simp add: fixture_defs select_defs)

text \<open>
  Claim C2, on \<^verbatim>\<open>test_closing\<close>: ten failures of \<open>(A, a)\<close>, one success, then
  \<^verbatim>\<open>select_endpoint(a)\<close>. The success leaves every tally at \<open>(0, None)\<close> and the
  selection raises \<^verbatim>\<open>TypeError\<close> on the first of them instead of returning \<open>A\<close>.
\<close>

theorem select_endpoint_after_success_raises:
  "fst (select_endpoint
         (snd (observe_success
            (observe_failures (fresh_registered ''A'' ''a'')
               [0, 0, 0, 0, 0, 0, 0, 0, 0, 0] ''A'' ''a'') ''A'' ''a''))
         0 0 0 ''a'' None 0) = Inl TypeError"
  by (simp add: fixture_defs select_defs)

text \<open>
  Claim C3, on \<^verbatim>\<open>test_cleanup\<close>: register \<open>(A, 1)\<close>, one failure, and a selection
  99999 seconds later. The cleanup pops \<open>A\<close> from \<^verbatim>\<open>endpoint_fail\<close> inside the loop
  over its keys, the loop raises \<^verbatim>\<open>RuntimeError\<close>, and \<^verbatim>\<open>select_endpoint\<close> neither
  returns \<open>A\<close> nor empties \<^verbatim>\<open>method_fail\<close> and \<^verbatim>\<open>method_instance_fail\<close>.
\<close>

theorem select_endpoint_cleanup_raises:
  "select_endpoint (observe_failures (fresh_registered ''A'' ''1'') [0] ''A'' ''1'')
       99999 99999 99999 ''1'' None 0 =
     (Inl RuntimeError,
      (observe_failures (fresh_registered ''A'' ''1'') [0] ''A'' ''1'')
        \<lparr>endpoint_fail := []\<rparr>) \<and>
   method_fail (observe_failures (fresh_registered ''A'' ''1'') [0] ''A'' ''1'') =
     [(''1'', (1, Some 0))] \<and>
   method_instance_fail (observe_failures (fresh_registered ''A'' ''1'') [0] ''A'' ''1'') =
     [(''1'', [(''A'', (1, Some 0))])]"
  by (simp add: fixture_defs select_defs)

section \<open>Properties of the liveness monitor\<close>

text \<open>
  Claim C10. \<^verbatim>\<open>on_send(msg)\<close> adds exactly 1 to \<^verbatim>\<open>sent_message_count\<close>, sets
  \<^verbatim>\<open>last_message\<close> to the clock reading when the message is not idle chatter and
  keeps it otherwise, and leaves \<^verbatim>\<open>last_seen\<close>, \<^verbatim>\<open>status\<close>, \<^verbatim>\<open>last_status_change\<close> and
  \<^verbatim>\<open>received_message_count\<close> as they were; \<^verbatim>\<open>on_recv\<close> is what sets \<^verbatim>\<open>last_seen\<close>.
\<close>

theorem on_send_frame:
  "sent_message_count (on_send c now msg) = sent_message_count c + 1 \<and>
   last_message (on_send c now msg) = (if is_idle_chatter msg then last_message c else now) \<and>
   last_seen (on_send c now msg) = last_seen c \<and>
   status (on_send c now msg) = status c \<and>
   last_status_change (on_send c now msg) = last_status_change c \<and>
   received_message_count (on_send c now msg) = received_message_count c \<and>
   last_seen (on_recv c now msg) = now"
  by (simp add: on_send_def on_recv_def Let_def)

text \<open>
  Claim C6. For a monitor that is not closed and has seen its peer, one call of
  \<^verbatim>\<open>update_status\<close> does what the first matching row of the transition table says, the
  rows taken in the order of the specification; and \<^verbatim>\<open>set_status(s)\<close> stamps
  \<^verbatim>\<open>last_status_change\<close> exactly when \<open>s\<close> is not the current status.
\<close>

theorem update_status_first_match:
  assumes "status c \<noteq> CLOSED" and "last_seen c \<noteq> 0"
  shows "update_status c now t =
           (case first_match (transition_table c now) of
              None \<Rightarrow> c
            | Some a \<Rightarrow> apply_action c t a) \<and>
         status (set_status c t s) = s \<and>
         last_status_change (set_status c t s) =
           (if s \<noteq> status c then t else last_status_change c)"
  using assms
  by (simp add: update_status_def transition_table_def close_def set_status_def Let_def)

theorem update_status_first_match_witness:
  "status (on_recv default_connection 1 \<lparr>is_idle_chatter = False\<rparr>) \<noteq> CLOSED \<and>
   last_seen (on_recv default_connection 1 \<lparr>is_idle_chatter = False\<rparr>) \<noteq> 0 \<and>
   update_status (on_recv default_connection 1 \<lparr>is_idle_chatter = False\<rparr>) 3 4 =
     (on_recv default_connection 1 \<lparr>is_idle_chatter = False\<rparr>)
       \<lparr>status := UNRESPONSIVE, last_status_change := 4\<rparr>"
proof -
  have h1: "status (on_recv default_connection 1 \<lparr>is_idle_chatter = False\<rparr>) \<noteq> CLOSED"
    by (simp add: default_connection_def connect_def on_recv_def Let_def)
  have h2: "last_seen (on_recv default_connection 1 \<lparr>is_idle_chatter = False\<rparr>) \<noteq> 0"
    by (simp add: default_connection_def connect_def on_recv_def Let_def)
  show ?thesis
    using h1 h2 update_status_first_match [OF h1 h2, of 3 4 UNKNOWN]
    by (simp add: default_connection_def connect_def on_recv_def Let_def
        transition_table_def)
qed

lemma live_check_loop_closed: "status c = CLOSED \<Longrightarrow> live_check_loop c ticks = c"
  by (cases ticks) auto

text \<open>
  Claim C7, as stated, fails for \<^verbatim>\<open>update_status\<close>: a monitor that has seen its peer
  at time 1 and was closed is given the status \<^verbatim>\<open>UNRESPONSIVE\<close> by a call of
  \<^verbatim>\<open>update_status\<close> at time 5.
\<close>

theorem closed_not_terminal_counterexample:
  "status (close (on_recv default_connection 1 \<lparr>is_idle_chatter = False\<rparr>)) = CLOSED \<and>
   status (update_status
             (close (on_recv default_connection 1 \<lparr>is_idle_chatter = False\<rparr>)) 5 5)
     = UNRESPONSIVE"
  by (simp add: default_connection_def update_status_def connect_def on_recv_def close_def
      set_status_def Let_def)

text \<open>
  Claim C7, amended. On a closed monitor \<^verbatim>\<open>on_recv\<close>, \<^verbatim>\<open>on_send\<close> and \<^verbatim>\<open>close\<close> leave
  the status \<^verbatim>\<open>CLOSED\<close>; \<^verbatim>\<open>close\<close> changes nothing at all, so the transport is not asked
  to disconnect again; and the status loop, which tests the status before every call of
  \<^verbatim>\<open>update_status\<close>, changes nothing either. After any \<^verbatim>\<open>close\<close> the status is
  \<^verbatim>\<open>CLOSED\<close> and a second \<^verbatim>\<open>close\<close> is a no-op.
\<close>

theorem closed_terminal:
  assumes "status c = CLOSED"
  shows "status (on_recv c now msg) = CLOSED \<and>
         status (on_send c now msg) = CLOSED \<and>
         close c = c \<and>
         disconnect_calls (close c) = disconnect_calls c \<and>
         live_check_loop c ticks = c \<and>
         status (close c') = CLOSED \<and>
         close (close c') = close c'"
  using assms
  by (simp add: on_recv_def on_send_def close_def Let_def live_check_loop_closed)

theorem closed_terminal_witness:
  "status (close default_connection) = CLOSED \<and>
   disconnect_calls (close default_connection) = [''peer''] \<and>
   disconnect_calls (close (close default_connection)) = [''peer''] \<and>
   live_check_loop (close default_connection) [(5, 5)] = close default_connection"
proof -
  have h: "status (close default_connection) = CLOSED"
    by (simp add: close_def)
  have d: "disconnect_calls (close default_connection) = [''peer'']"
    by (simp add: close_def default_connection_def connect_def)
  show ?thesis
    using h d closed_terminal [OF h, of 0 "\<lparr>is_idle_chatter = False\<rparr>" "[(5, 5)]"
        default_connection]
    by simp
qed

end
